theory Spec2Isabelle
  imports Complex_Main
begin

section \<open>JavaScript values\<close>

text \<open>
  The values that \<^verbatim>\<open>src/lib/schema.js\<close> receives and returns. A number is a rational or
  \<^verbatim>\<open>NaN\<close> (the infinities and the signed zero play no part in the code). A function value
  carries its \<^verbatim>\<open>name\<close> property and an identity, which the runtime interprets when the
  function is called. An object is the list of its own enumerable properties in the order
  of \<^verbatim>\<open>Object.keys\<close>; a \<^verbatim>\<open>Date\<close> carries its time value and a \<^verbatim>\<open>RegExp\<close> its source.
\<close>

datatype jsnum = NaN | Num rat

datatype jsval =
    JUndefined
  | JNull
  | JBool bool
  | JNum jsnum
  | JStr string
  | JFun string nat
  | JArr "jsval list"
  | JObj "(string \<times> jsval) list"
  | JDate jsnum
  | JRegExp string

type_synonym props = "(string \<times> jsval) list"

text \<open>Truthiness, as \<^verbatim>\<open>!v\<close> and \<^verbatim>\<open>a && b\<close> test it.\<close>

fun truthy :: "jsval \<Rightarrow> bool" where
  "truthy JUndefined = False"
| "truthy JNull = False"
| "truthy (JBool b) = b"
| "truthy (JNum NaN) = False"
| "truthy (JNum (Num r)) = (r \<noteq> 0)"
| "truthy (JStr s) = (s \<noteq> [])"
| "truthy (JFun n i) = True"
| "truthy (JArr xs) = True"
| "truthy (JObj kvs) = True"
| "truthy (JDate t) = True"
| "truthy (JRegExp r) = True"

fun typeof :: "jsval \<Rightarrow> string" where
  "typeof JUndefined = ''undefined''"
| "typeof JNull = ''object''"
| "typeof (JBool b) = ''boolean''"
| "typeof (JNum n) = ''number''"
| "typeof (JStr s) = ''string''"
| "typeof (JFun n i) = ''function''"
| "typeof (JArr xs) = ''object''"
| "typeof (JObj kvs) = ''object''"
| "typeof (JDate t) = ''object''"
| "typeof (JRegExp r) = ''object''"

text \<open>Decimal rendering of an array index, as \<^verbatim>\<open>Object.keys\<close> produces it.\<close>

function string_of_nat :: "nat \<Rightarrow> string" where
  "string_of_nat n =
     (if n < 10 then [char_of (48 + n)]
      else string_of_nat (n div 10) @ [char_of (48 + n mod 10)])"
  by pat_completeness auto
termination
  by (relation "measure (\<lambda>n. n)") auto

declare string_of_nat.simps [simp del]

text \<open>
  \<^verbatim>\<open>Object.keys(v)\<close> for a defined, non-null \<^verbatim>\<open>v\<close>: the own enumerable string keys.
\<close>

fun own_keys :: "jsval \<Rightarrow> string list" where
  "own_keys (JObj kvs) = map fst kvs"
| "own_keys (JArr xs) = map string_of_nat [0..<length xs]"
| "own_keys (JStr s) = map string_of_nat [0..<length s]"
| "own_keys v = []"

text \<open>The own data property \<^verbatim>\<open>k\<close> of an object or array, if there is one.\<close>

fun own_prop :: "jsval \<Rightarrow> string \<Rightarrow> jsval option" where
  "own_prop (JObj kvs) k = map_of kvs k"
| "own_prop (JArr xs) k =
     (if k = ''length'' then Some (JNum (Num (of_nat (length xs))))
      else map_of (zip (map string_of_nat [0..<length xs]) xs) k)"
| "own_prop v k = None"

section \<open>Schema nodes and errors\<close>

text \<open>
  A node of the schema tree, with the fields the constructor sets. \<^verbatim>\<open>children\<close> is absent
  (\<open>None\<close>) for a leaf. \<^verbatim>\<open>parent\<close> is a back-reference in the source, read only by
  \<^verbatim>\<open>fullPath\<close>, which takes the ancestors' names from it: the node keeps these names,
  root first (\<open>None\<close> when the node has no parent). The type of the setting values is a
  parameter: the values above here, references into a store further down.
\<close>

datatype 'v gschema =
  Schema (name: string) (parent: "string list option") (type: string)
         (settings: "(string \<times> 'v) list") (children: "'v gschema list option")

type_synonym schema = "jsval gschema"

text \<open>
  What the code throws: a plain \<^verbatim>\<open>Error\<close>, a \<^verbatim>\<open>TypeError\<close> of the runtime, or a
  \<^verbatim>\<open>ValidationError\<close> with its message, child errors, offending value and field.
\<close>

datatype 'v gerr =
    Error string
  | TypeError string
  | ValidationError (message: 'v) (errors: "'v gerr list") (err_value: 'v)
      (field: "'v gschema option")

type_synonym err = "jsval gerr"

section \<open>The runtime\<close>

text \<open>
  What the code asks of the JavaScript engine and cannot be read off the source: calling a
  function value (with its \<^verbatim>\<open>this\<close> and arguments), looking a property up the prototype
  chain, converting an object to a primitive, reading a number or a date out of a string,
  matching a regular expression. Function calls are taken to be pure.
\<close>

record runtime =
  rt_call :: "nat \<Rightarrow> jsval \<Rightarrow> jsval list \<Rightarrow> err + jsval"
  rt_inherited :: "jsval \<Rightarrow> string \<Rightarrow> jsval"
  rt_ToPrimitive :: "jsval \<Rightarrow> err + jsval"
  rt_StringToNumber :: "string \<Rightarrow> jsnum"
  rt_RegExp_test :: "string \<Rightarrow> jsval \<Rightarrow> err + bool"
  rt_Date_parse :: "jsval \<Rightarrow> err + jsnum"

text \<open>\<^verbatim>\<open>v[k]\<close>: the own property, else the inherited one; reading from \<^verbatim>\<open>null\<close> throws.\<close>

definition get_prop :: "runtime \<Rightarrow> jsval \<Rightarrow> string \<Rightarrow> err + jsval" where
  "get_prop rt v k =
     (if v = JNull \<or> v = JUndefined
      then Inl (TypeError (''Cannot read property '' @ k))
      else (case own_prop v k of Some x \<Rightarrow> Inr x | None \<Rightarrow> Inr (rt_inherited rt v k)))"

text \<open>\<^verbatim>\<open>v.k(args)\<close>: the property must be a function.\<close>

definition call_method :: "runtime \<Rightarrow> jsval \<Rightarrow> string \<Rightarrow> jsval list \<Rightarrow> err + jsval" where
  "call_method rt v k args =
     (case get_prop rt v k of
        Inl e \<Rightarrow> Inl e
      | Inr (JFun n i) \<Rightarrow> rt_call rt i v args
      | Inr _ \<Rightarrow> Inl (TypeError (k @ '' is not a function'')))"

text \<open>
  \<^verbatim>\<open>v.hasOwnProperty(k)\<close>: the method of \<^verbatim>\<open>Object.prototype\<close>, unless the object has a
  property of that name itself.
\<close>

definition hasOwnProperty :: "runtime \<Rightarrow> jsval \<Rightarrow> string \<Rightarrow> err + jsval" where
  "hasOwnProperty rt v k =
     (if v = JNull \<or> v = JUndefined
      then Inl (TypeError ''Cannot read property hasOwnProperty'')
      else (case own_prop v ''hasOwnProperty'' of
              Some f \<Rightarrow> call_method rt v ''hasOwnProperty'' [JStr k]
            | None \<Rightarrow> Inr (JBool (own_prop v k \<noteq> None))))"

text \<open>\<^verbatim>\<open>v.length\<close>.\<close>

definition js_length :: "runtime \<Rightarrow> jsval \<Rightarrow> err + jsval" where
  "js_length rt v =
     (case v of
        JStr s \<Rightarrow> Inr (JNum (Num (of_nat (length s))))
      | _ \<Rightarrow> get_prop rt v ''length'')"

text \<open>Conversion to a primitive and to a number (\<^verbatim>\<open>Number(v)\<close>).\<close>

definition ToPrimitive :: "runtime \<Rightarrow> jsval \<Rightarrow> err + jsval" where
  "ToPrimitive rt v =
     (if typeof v = ''object'' \<and> v \<noteq> JNull \<or> typeof v = ''function''
      then rt_ToPrimitive rt v else Inr v)"

fun ToNumber_primitive :: "runtime \<Rightarrow> jsval \<Rightarrow> jsnum" where
  "ToNumber_primitive rt JUndefined = NaN"
| "ToNumber_primitive rt JNull = Num 0"
| "ToNumber_primitive rt (JBool b) = (if b then Num 1 else Num 0)"
| "ToNumber_primitive rt (JNum n) = n"
| "ToNumber_primitive rt (JStr s) = rt_StringToNumber rt s"
| "ToNumber_primitive rt v = NaN"

definition ToNumber :: "runtime \<Rightarrow> jsval \<Rightarrow> err + jsnum" where
  "ToNumber rt v =
     (case ToPrimitive rt v of Inl e \<Rightarrow> Inl e | Inr p \<Rightarrow> Inr (ToNumber_primitive rt p))"

text \<open>
  The relational comparisons \<^verbatim>\<open>a < b\<close> and \<^verbatim>\<open>a > b\<close>: two strings compare by code units,
  anything else as numbers, and a comparison with \<^verbatim>\<open>NaN\<close> is false.
\<close>

fun str_lt :: "string \<Rightarrow> string \<Rightarrow> bool" where
  "str_lt [] [] = False"
| "str_lt [] (d # t) = True"
| "str_lt (c # s) [] = False"
| "str_lt (c # s) (d # t) =
     ((of_char c :: nat) < of_char d \<or> (of_char c :: nat) = of_char d \<and> str_lt s t)"

fun num_lt :: "jsnum \<Rightarrow> jsnum \<Rightarrow> bool" where
  "num_lt (Num a) (Num b) = (a < b)"
| "num_lt a b = False"

definition prim_lt :: "runtime \<Rightarrow> jsval \<Rightarrow> jsval \<Rightarrow> bool" where
  "prim_lt rt a b =
     (case (a, b) of
        (JStr s, JStr t) \<Rightarrow> str_lt s t
      | _ \<Rightarrow> num_lt (ToNumber_primitive rt a) (ToNumber_primitive rt b))"

definition js_lt :: "runtime \<Rightarrow> jsval \<Rightarrow> jsval \<Rightarrow> err + bool" where
  "js_lt rt a b =
     (case ToPrimitive rt a of
        Inl e \<Rightarrow> Inl e
      | Inr pa \<Rightarrow> (case ToPrimitive rt b of
                    Inl e \<Rightarrow> Inl e
                  | Inr pb \<Rightarrow> Inr (prim_lt rt pa pb)))"

definition js_gt :: "runtime \<Rightarrow> jsval \<Rightarrow> jsval \<Rightarrow> err + bool" where
  "js_gt rt a b =
     (case ToPrimitive rt a of
        Inl e \<Rightarrow> Inl e
      | Inr pa \<Rightarrow> (case ToPrimitive rt b of
                    Inl e \<Rightarrow> Inl e
                  | Inr pb \<Rightarrow> Inr (prim_lt rt pb pa)))"

text \<open>\<^verbatim>\<open>Number.isInteger(v)\<close> and the time value of \<^verbatim>\<open>new Date(t)\<close>.\<close>

fun isInteger :: "jsval \<Rightarrow> bool" where
  "isInteger (JNum (Num r)) = (r = of_int \<lfloor>r\<rfloor>)"
| "isInteger v = False"

fun TimeClip :: "jsnum \<Rightarrow> jsnum" where
  "TimeClip NaN = NaN"
| "TimeClip (Num r) =
     (if \<bar>r\<bar> \<le> 8640000000000000
      then Num (of_int (if 0 \<le> r then \<lfloor>r\<rfloor> else \<lceil>r\<rceil>)) else NaN)"

section \<open>Schema: helpers of the class\<close>

text \<open>\<^verbatim>\<open>this.settings.k\<close>; the settings object inherits no setting.\<close>

definition setting :: "schema \<Rightarrow> string \<Rightarrow> jsval" where
  "setting S k = (case map_of (settings S) k of Some v \<Rightarrow> v | None \<Rightarrow> JUndefined)"

text \<open>\<^verbatim>\<open>Schema.castThrowable\<close>; the caller destructures the two elements.\<close>

fun castThrowable :: "jsval \<Rightarrow> jsval \<Rightarrow> jsval \<times> jsval" where
  "castThrowable (JArr [a, b]) error = (a, b)"
| "castThrowable v error = (v, error)"

text \<open>
  The getter \<^verbatim>\<open>fullPath\<close>. The parent's own \<^verbatim>\<open>fullPath\<close> is computed from the ancestors'
  names by the same rule.
\<close>

definition joinPath :: "string \<Rightarrow> string \<Rightarrow> string" where
  "joinPath parentPath n = (if parentPath \<noteq> [] then parentPath @ ''.'' else []) @ n"

definition fullPath :: "'v gschema \<Rightarrow> string" where
  "fullPath S =
     joinPath (case parent S of None \<Rightarrow> [] | Some ns \<Rightarrow> foldl joinPath [] ns) (name S)"

text \<open>
  Modelled from the spec: the class \<^verbatim>\<open>ValidationError\<close> of \<^verbatim>\<open>validation-error.js\<close> is not
  among the sources. It carries the message, the child errors (none when the caller
  gives none), the offending value and the field, as the constructor \<open>ValidationError\<close>.
\<close>

definition new_ValidationError ::
  "'v \<Rightarrow> 'v gerr list option \<Rightarrow> 'v \<Rightarrow> 'v gschema option \<Rightarrow> 'v gerr" where
  "new_ValidationError msg errs v f =
     ValidationError msg (case errs of None \<Rightarrow> [] | Some es \<Rightarrow> es) v f"

text \<open>\<^verbatim>\<open>throwError (message, { errors, value })\<close>.\<close>

definition throwError ::
  "'v gschema \<Rightarrow> 'v \<Rightarrow> 'v gerr list option \<Rightarrow> 'v \<Rightarrow> 'v gerr + 'a" where
  "throwError S msg errs v = Inl (new_ValidationError msg errs v (Some S))"

section \<open>Transformers\<close>

text \<open>
  The \<^verbatim>\<open>parse\<close> hooks of the object literal \<^verbatim>\<open>Transformers\<close>; \<^verbatim>\<open>this\<close> is the schema node
  \<open>S\<close> the hook is called on.
\<close>

definition String_parse :: "runtime \<Rightarrow> schema \<Rightarrow> jsval \<Rightarrow> err + jsval" where
  "String_parse rt S v0 =
     (case (if typeof v0 \<noteq> ''string''
            then (case (if typeof v0 = ''object'' then hasOwnProperty rt v0 ''toString''
                        else Inr (JBool False)) of
                    Inl e \<Rightarrow> Inl e
                  | Inr c \<Rightarrow> if \<not> truthy c then throwError S (JStr ''Invalid string'') None v0
                            else call_method rt v0 ''toString'' [])
            else Inr v0) of
        Inl e \<Rightarrow> Inl e
      | Inr v \<Rightarrow>
     (case (if truthy (setting S ''minlength'')
            then (case castThrowable (setting S ''minlength'') (JStr ''Invalid minlength'') of
                    (minlength, error) \<Rightarrow>
                      (case js_length rt v of
                         Inl e \<Rightarrow> Inl e
                       | Inr len \<Rightarrow> (case js_lt rt len minlength of
                                      Inl e \<Rightarrow> Inl e
                                    | Inr b \<Rightarrow> if b then throwError S error None v else Inr ())))
            else Inr ()) of
        Inl e \<Rightarrow> Inl e
      | Inr u1 \<Rightarrow>
     (case (if truthy (setting S ''maxlength'')
            then (case castThrowable (setting S ''maxlength'') (JStr ''Invalid maxlength'') of
                    (maxlength, error) \<Rightarrow>
                      (case js_length rt v of
                         Inl e \<Rightarrow> Inl e
                       | Inr len \<Rightarrow> (case js_gt rt len maxlength of
                                      Inl e \<Rightarrow> Inl e
                                    | Inr b \<Rightarrow> if b then throwError S error None v else Inr ())))
            else Inr ()) of
        Inl e \<Rightarrow> Inl e
      | Inr u2 \<Rightarrow>
     (case (if truthy (setting S ''regex'')
            then (case castThrowable (setting S ''regex'') (JStr ''Invalid regex'') of
                    (regex, error) \<Rightarrow>
                      (case (case regex of
                               JRegExp src \<Rightarrow> rt_RegExp_test rt src v
                             | _ \<Rightarrow> (case call_method rt regex ''test'' [v] of
                                      Inl e \<Rightarrow> Inl e | Inr r \<Rightarrow> Inr (truthy r))) of
                         Inl e \<Rightarrow> Inl e
                       | Inr b \<Rightarrow> if \<not> b then throwError S error None v else Inr ()))
            else Inr ()) of
        Inl e \<Rightarrow> Inl e
      | Inr u3 \<Rightarrow> Inr v))))"

definition Number_parse :: "runtime \<Rightarrow> schema \<Rightarrow> jsval \<Rightarrow> err + jsval" where
  "Number_parse rt S v0 =
     (case ToNumber rt v0 of
        Inl e \<Rightarrow> Inl e
      | Inr v \<Rightarrow> if v = NaN then Inl (Error ''Invalid number'') else Inr (JNum v))"

definition Date_parse :: "runtime \<Rightarrow> schema \<Rightarrow> jsval \<Rightarrow> err + jsval" where
  "Date_parse rt S v0 =
     (case (if isInteger v0 then ToNumber rt v0 else rt_Date_parse rt v0) of
        Inl e \<Rightarrow> Inl e
      | Inr t \<Rightarrow> Inr (JDate (TimeClip t)))"

definition Function_parse :: "runtime \<Rightarrow> schema \<Rightarrow> jsval \<Rightarrow> err + jsval" where
  "Function_parse rt S v =
     (if typeof v \<noteq> ''function'' then Inl (Error ''Invalid function'') else Inr v)"

text \<open>
  A registry entry: its \<^verbatim>\<open>loaders\<close> property (undefined for the four entries of the
  source) and its \<^verbatim>\<open>parse\<close> hook.
\<close>

record transformer =
  loaders :: jsval
  parse_hook :: "runtime \<Rightarrow> schema \<Rightarrow> jsval \<Rightarrow> err + jsval"

text \<open>
  \<^verbatim>\<open>Transformers[type]\<close>. Beside its four own entries the object literal answers for the
  names it inherits (\<^verbatim>\<open>constructor\<close>, \<^verbatim>\<open>toString\<close>, ...): such a member is truthy, has no
  \<^verbatim>\<open>loaders\<close> and no \<^verbatim>\<open>parse\<close>, so that calling its \<^verbatim>\<open>parse\<close> is a \<^verbatim>\<open>TypeError\<close>.
\<close>

definition Transformers :: "runtime \<Rightarrow> string \<Rightarrow> transformer option" where
  "Transformers rt ty =
     (if ty = ''String'' then Some \<lparr>loaders = JUndefined, parse_hook = String_parse\<rparr>
      else if ty = ''Number'' then Some \<lparr>loaders = JUndefined, parse_hook = Number_parse\<rparr>
      else if ty = ''Date'' then Some \<lparr>loaders = JUndefined, parse_hook = Date_parse\<rparr>
      else if ty = ''Function'' then Some \<lparr>loaders = JUndefined, parse_hook = Function_parse\<rparr>
      else if truthy (rt_inherited rt (JObj []) ty)
      then Some \<lparr>loaders = JUndefined,
                 parse_hook = (\<lambda>rt S v. Inl (TypeError ''Cannot read property call of undefined''))\<rparr>
      else None)"

section \<open>Schema: type names\<close>

text \<open>
  \<^verbatim>\<open>Schema.isNested\<close> and \<^verbatim>\<open>Schema.guessType\<close>. Reading \<^verbatim>\<open>.type\<close> of \<^verbatim>\<open>null\<close> throws; no
  prototype has a \<^verbatim>\<open>type\<close> member, so only an own property answers.
\<close>

definition type_of_def :: "jsval \<Rightarrow> jsval" where
  "type_of_def v = (case own_prop v ''type'' of Some t \<Rightarrow> t | None \<Rightarrow> JUndefined)"

definition isNested :: "jsval \<Rightarrow> err + bool" where
  "isNested obj =
     (if typeof obj = ''object''
      then (if obj = JNull then Inl (TypeError ''Cannot read property type of null'')
            else Inr (\<not> truthy (type_of_def obj)))
      else Inr False)"

function guessType :: "jsval \<Rightarrow> err + string" where
  "guessType v =
     (case v of
        JFun n i \<Rightarrow> Inr n
      | JNull \<Rightarrow> Inl (TypeError ''Cannot read property type of null'')
      | JStr s \<Rightarrow> Inr s
      | JObj kvs \<Rightarrow> (case map_of kvs ''type'' of
                      Some t \<Rightarrow> if truthy t then guessType t else Inr ''Schema''
                    | None \<Rightarrow> Inr ''Schema'')
      | _ \<Rightarrow> Inr ''Schema'')"
  by pat_completeness auto
termination
proof (relation "measure size")
  show "wf (measure (size :: jsval \<Rightarrow> nat))" by simp
next
  fix v :: jsval and kvs :: props and t :: jsval
  assume v: "v = JObj kvs" and t: "map_of kvs ''type'' = Some t"
  from t have "(''type'', t) \<in> set kvs" by (rule map_of_SomeD)
  then have "size t < Suc (size_list (size_prod (\<lambda>_. 0) size) kvs)"
    by (induction kvs) auto
  with v show "(t, v) \<in> measure size" by simp
qed

declare guessType.simps [simp del]

text \<open>Modelled from the spec: \<^verbatim>\<open>castArray\<close> of \<^verbatim>\<open>utils/cast-array\<close> is not among the
  sources; it coerces a scalar or an array into an array.\<close>

fun castArray :: "jsval \<Rightarrow> jsval list" where
  "castArray (JArr xs) = xs"
| "castArray v = [v]"

text \<open>
  Modelled from the spec: \<^verbatim>\<open>forEach\<close> of \<^verbatim>\<open>utils/for-each.js\<close> is not among the sources; it
  iterates a sequence and stops when the callback returns \<^verbatim>\<open>false\<close>. The callbacks of
  \<^verbatim>\<open>_run\<close> and \<^verbatim>\<open>_parseSchema\<close> never do; the one of \<^verbatim>\<open>schemaAtPath\<close> does at its first
  match, which \<open>find\<close> expresses.
\<close>

section \<open>Schema: running a transformer\<close>

text \<open>
  \<^verbatim>\<open>_run (type, v)\<close>. The loop over \<^verbatim>\<open>transformer.loaders\<close> calls \<^verbatim>\<open>_run\<close> again; no entry
  of the registry has loaders, which is why the recursion ends.
\<close>

function run :: "runtime \<Rightarrow> schema \<Rightarrow> string \<Rightarrow> jsval \<Rightarrow> err + jsval" where
  "run rt S ty v =
     (case Transformers rt ty of
        None \<Rightarrow> Inl (Error (''Don't know how to resolve '' @ ty))
      | Some transformer \<Rightarrow>
          if v = JUndefined \<and> \<not> truthy (setting S ''required'') then Inr JUndefined
          else
            (case (if \<not> truthy v \<and> truthy (setting S ''required'')
                   then (case castThrowable (setting S ''required'')
                               (JStr (''Field '' @ fullPath S @ '' is required'')) of
                           (required, error) \<Rightarrow>
                             if truthy required then throwError S error None v else Inr ())
                   else Inr ()) of
               Inl e \<Rightarrow> Inl e
             | Inr u \<Rightarrow>
                 (case (if truthy (loaders transformer)
                        then fold (\<lambda>loader acc.
                                     case acc of
                                       Inl e \<Rightarrow> Inl e
                                     | Inr x \<Rightarrow> (case guessType loader of
                                                   Inl e \<Rightarrow> Inl e
                                                 | Inr ty' \<Rightarrow> run rt S ty' x))
                                  (castArray (loaders transformer)) (Inr v)
                        else Inr v) of
                    Inl e \<Rightarrow> Inl e
                  | Inr v' \<Rightarrow> parse_hook transformer rt S v')))"
  by pat_completeness auto
termination
proof (relation "{} :: ((runtime \<times> schema \<times> string \<times> jsval) \<times> (runtime \<times> schema \<times> string \<times> jsval)) set")
  show "wf ({} :: ((runtime \<times> schema \<times> string \<times> jsval) \<times> (runtime \<times> schema \<times> string \<times> jsval)) set)"
    by simp
next
  fix rt :: runtime and ty :: string and transformer :: transformer
    and S :: schema and ty' :: string and x v :: jsval
  assume "Transformers rt ty = Some transformer" and "truthy (loaders transformer)"
  then have False
    by (auto simp: Transformers_def split: if_splits)
  then show "((rt, S, ty', x), (rt, S, ty, v)) \<in> {}" ..
qed

declare run.simps [simp del]

section \<open>Schema: construction\<close>

text \<open>
  The constructor and \<^verbatim>\<open>_parseSchema\<close>. \<open>nm\<close> is the option \<^verbatim>\<open>name\<close> (the empty string when
  not given) and \<open>par\<close> the option \<^verbatim>\<open>parent\<close>. The children get the path of the node that
  builds them as their parent. A definition here is a plain value: a property that holds
  an instance of \<^verbatim>\<open>Schema\<close> (the clone branch of \<^verbatim>\<open>_parseSchema\<close>) is outside this
  development.
\<close>

function Schema_new :: "jsval \<Rightarrow> string \<Rightarrow> string list option \<Rightarrow> err + schema"
  and parseSchema :: "string list \<Rightarrow> jsval \<Rightarrow> err + schema list" where
  "Schema_new schema nm par =
     (case isNested schema of
        Inl e \<Rightarrow> Inl e
      | Inr nested \<Rightarrow>
          if nested
          then (case parseSchema ((case par of None \<Rightarrow> [] | Some ns \<Rightarrow> ns) @ [nm]) schema of
                  Inl e \<Rightarrow> Inl e
                | Inr cs \<Rightarrow> Inr (Schema nm par ''Schema'' [] (Some cs)))
          else (case guessType schema of
                  Inl e \<Rightarrow> Inl e
                | Inr ty \<Rightarrow>
                    Inr (Schema nm par ty
                          (filter (\<lambda>kv. fst kv \<noteq> ''type'')
                             (case schema of JObj kvs \<Rightarrow> kvs | _ \<Rightarrow> []))
                          None)))"
| "parseSchema self obj =
     (case isNested obj of
        Inl e \<Rightarrow> Inl e
      | Inr nested \<Rightarrow>
          if \<not> nested then Inr []
          else fold (\<lambda>prop acc.
                       case acc of
                         Inl e \<Rightarrow> Inl e
                       | Inr cs \<Rightarrow>
                           (case Schema_new (case own_prop obj prop of
                                                Some d \<Rightarrow> d | None \<Rightarrow> JUndefined)
                                   prop (Some self) of
                              Inl e \<Rightarrow> Inl e
                            | Inr c \<Rightarrow> Inr (cs @ [c])))
                    (own_keys obj) (Inr []))"
  by pat_completeness auto
termination
proof (relation "measure (\<lambda>x. case x of Inl (d, n, p) \<Rightarrow> 2 * size d + 1
                                       | Inr (t, d) \<Rightarrow> 2 * size d)")
  show "wf (measure (\<lambda>x. case x of Inl (d, n, p) \<Rightarrow> 2 * size d + 1
                                 | Inr (t, d) \<Rightarrow> 2 * size (d :: jsval)))"
    by simp
next
  fix schema :: jsval and nm :: string and par :: "string list option"
  show "(Inr ((case par of None \<Rightarrow> [] | Some ns \<Rightarrow> ns) @ [nm], schema), Inl (schema, nm, par))
       \<in> measure (\<lambda>x. case x of Inl (d, n, p) \<Rightarrow> 2 * size d + 1 | Inr (t, d) \<Rightarrow> 2 * size d)"
    by simp
next
  fix pth :: "string list" and ob :: jsval and key :: string and b :: bool
  assume nested: "isNested ob = Inr b" "\<not> \<not> b" and key: "key \<in> set (own_keys ob)"
  have "size (case own_prop ob key of None \<Rightarrow> JUndefined | Some d \<Rightarrow> d) < size ob"
  proof (cases "own_prop ob key")
    case None
    show ?thesis
    proof (cases ob)
      case (JObj kvs)
      then show ?thesis using None by simp
    next
      case (JArr xs)
      then show ?thesis using None by simp
    next
      case (JStr s)
      then show ?thesis using nested by (simp add: isNested_def)
    qed (use key in simp_all)
  next
    case (Some d)
    have "size d < size ob"
    proof (cases ob)
      case (JObj kvs)
      with Some have "(key, d) \<in> set kvs" by (auto dest: map_of_SomeD)
      then have "size d < Suc (size_list (size_prod (\<lambda>_. 0) size) kvs)"
        by (induction kvs) auto
      with JObj show ?thesis by simp
    next
      case (JArr xs)
      show ?thesis
      proof (cases "key = ''length''")
        case True
        with Some JArr show ?thesis by auto
      next
        case False
        with Some JArr have "d \<in> set xs" by (auto dest!: map_of_SomeD set_zip_rightD)
        then have "size d < Suc (size_list size xs)"
          by (induction xs) auto
        with JArr show ?thesis by simp
      qed
    qed (use Some in auto)
    with Some show ?thesis by simp
  qed
  then show "(Inl (case own_prop ob key of None \<Rightarrow> JUndefined | Some d \<Rightarrow> d, key, Some pth),
              Inr (pth, ob))
       \<in> measure (\<lambda>x. case x of Inl (d, n, p) \<Rightarrow> 2 * size d + 1 | Inr (t, d) \<Rightarrow> 2 * size d)"
    by simp
qed

declare Schema_new.simps [simp del] parseSchema.simps [simp del]

section \<open>Schema: paths\<close>

text \<open>The getters \<^verbatim>\<open>ownPaths\<close> and \<^verbatim>\<open>paths\<close>; \<^verbatim>\<open>ownPaths\<close> of a leaf reads \<^verbatim>\<open>undefined.map\<close>.\<close>

definition ownPaths :: "'v gschema \<Rightarrow> 'w gerr + string list" where
  "ownPaths S =
     (case children S of
        None \<Rightarrow> Inl (TypeError ''Cannot read property map of undefined'')
      | Some cs \<Rightarrow> Inr (map name cs))"

function paths :: "'v gschema \<Rightarrow> string list" where
  "paths S =
     (case children S of
        Some cs \<Rightarrow>
          concat (map (\<lambda>c. map (\<lambda>path. (if name S \<noteq> [] then name S @ ''.'' else []) @ path)
                             (paths c)) cs)
      | None \<Rightarrow> [name S])"
  by pat_completeness auto
termination
proof (relation "measure size")
  show "wf (measure (size :: 'v gschema \<Rightarrow> nat))" by simp
next
  fix S :: "'v gschema" and cs :: "'v gschema list" and c :: "'v gschema"
  assume cs: "children S = Some cs" and c: "c \<in> set cs"
  from c have "size c < Suc (size_list size cs)"
    by (induction cs) auto
  with cs show "(c, S) \<in> measure size" by (cases S) simp
qed

declare paths.simps [simp del]

text \<open>
  \<^verbatim>\<open>schemaAtPath\<close> looks for the child named as the first segment of \<^verbatim>\<open>pathName\<close>, and
  \<^verbatim>\<open>hasField\<close> for the name among \<^verbatim>\<open>paths\<close>.
\<close>

definition schemaAtPath :: "'v gschema \<Rightarrow> string \<Rightarrow> 'v gschema option" where
  "schemaAtPath S pathName =
     find (\<lambda>possibleSchema. name possibleSchema = takeWhile (\<lambda>c. c \<noteq> CHR ''.'') pathName)
          (case children S of Some cs \<Rightarrow> cs | None \<Rightarrow> [])"

definition hasField :: "'v gschema \<Rightarrow> string \<Rightarrow> bool" where
  "hasField S fieldName = (fieldName \<in> set (paths S))"

section \<open>Schema: structural validation\<close>

text \<open>
  Modelled from the spec: \<^verbatim>\<open>propertiesRestricted\<close> of \<^verbatim>\<open>utils/properties-restricted\<close> is not
  among the sources; it checks that an object's keys are a subset of the allowed set.
\<close>

definition propertiesRestricted :: "jsval \<Rightarrow> string list \<Rightarrow> bool" where
  "propertiesRestricted obj properties = list_all (\<lambda>k. k \<in> set properties) (own_keys obj)"

text \<open>
  Modelled from the spec: \<^verbatim>\<open>obj2dot\<close> of \<^verbatim>\<open>utils/obj-2-dot\<close> is not among the sources; it
  flattens a nested mapping into dotted-path keys, depth first and in key order, as the
  test \<^verbatim>\<open>Converts object into indexed dot array\<close> of \<^verbatim>\<open>test/utils.test.js\<close> shows: a
  property that holds a mapping gives the paths of that mapping under the property's
  name, any other property gives its name.
\<close>

fun obj2dot_props :: "props \<Rightarrow> string list" where
  "obj2dot_props [] = []"
| "obj2dot_props ((k, v) # kvs) =
     (case v of
        JObj sub \<Rightarrow> map (\<lambda>p. k @ ''.'' @ p) (obj2dot_props sub)
      | _ \<Rightarrow> [k]) @ obj2dot_props kvs"

fun obj2dot :: "jsval \<Rightarrow> string list" where
  "obj2dot (JObj kvs) = obj2dot_props kvs"
| "obj2dot v = own_keys v"

text \<open>\<^verbatim>\<open>structureValidation (obj)\<close>: returns \<^verbatim>\<open>true\<close>, returns nothing, or throws.\<close>

definition structureValidation :: "schema \<Rightarrow> jsval \<Rightarrow> err + jsval" where
  "structureValidation S obj =
     (if \<not> truthy obj then Inr (JBool True)
      else (case ownPaths S of
              Inl e \<Rightarrow> Inl e
            | Inr ps \<Rightarrow>
                if \<not> propertiesRestricted obj ps
                then Inl (new_ValidationError (JStr ''Invalid object schema'')
                            (Some (map (\<lambda>field. Error (''Unknown property '' @ field))
                                       (filter (\<lambda>field. \<not> hasField S field) (obj2dot obj))))
                            obj None)
                else Inr JUndefined))"

section \<open>Schema: parse\<close>

text \<open>
  The pieces of the loop body of \<^verbatim>\<open>_parseNested\<close>. \<open>child_input\<close> is the argument
  \<^verbatim>\<open>typeof obj === 'object' ? obj[schema.name] : undefined\<close>. \<open>assign\<close> is
  \<^verbatim>\<open>Object.assign(resultingObject, { [schema.name]: val })\<close>: a key that is there keeps its
  place, a new one comes last. \<open>collect\<close> is the \<^verbatim>\<open>try\<close>/\<^verbatim>\<open>catch\<close> around the child's parse,
  given what the parse returned or threw, on the pair of \<^verbatim>\<open>resultingObject\<close> and
  \<^verbatim>\<open>errors\<close>. \<open>finish\<close> is the end of the method.
\<close>

definition child_input :: "runtime \<Rightarrow> jsval \<Rightarrow> schema \<Rightarrow> err + jsval" where
  "child_input rt obj schema =
     (if typeof obj = ''object'' then get_prop rt obj (name schema) else Inr JUndefined)"

fun assign :: "(string \<times> 'v) list \<Rightarrow> string \<Rightarrow> 'v \<Rightarrow> (string \<times> 'v) list" where
  "assign [] k v = [(k, v)]"
| "assign (p # ps) k v = (if fst p = k then (k, v) # ps else p # assign ps k v)"

definition collect :: "props \<times> err list \<Rightarrow> schema \<Rightarrow> err + jsval \<Rightarrow> props \<times> err list" where
  "collect acc schema r =
     (case r of
        Inr val \<Rightarrow>
          if val \<noteq> JUndefined then (assign (fst acc) (name schema) val, snd acc) else acc
      | Inl err \<Rightarrow>
          (case err of
             ValidationError m es w f \<Rightarrow>
               if length es > 0 then (fst acc, snd acc @ es) else (fst acc, snd acc @ [err])
           | _ \<Rightarrow> (fst acc, snd acc @ [err])))"

definition finish :: "props \<times> err list \<Rightarrow> err + jsval" where
  "finish acc =
     (case acc of
        (resultingObject, errs) \<Rightarrow>
          if length errs > 0
          then Inl (new_ValidationError (JStr ''Data is not valid'') (Some errs) JUndefined None)
          else Inr (if length (own_keys (JObj resultingObject)) > 0 then JObj resultingObject
                    else JUndefined))"

text \<open>
  \<^verbatim>\<open>parse (v)\<close> and \<^verbatim>\<open>_parseNested (obj)\<close>. \<open>parseFields\<close> is the loop
  \<^verbatim>\<open>this.ownPaths.forEach(pathName => ...)\<close> of \<^verbatim>\<open>_parseNested\<close>, over the paths that are
  left and the pair of \<^verbatim>\<open>resultingObject\<close> and \<^verbatim>\<open>errors\<close> so far. A path whose first
  segment names no child makes \<^verbatim>\<open>schema.parse\<close> a \<^verbatim>\<open>TypeError\<close>, thrown inside the \<^verbatim>\<open>try\<close>.
\<close>

function parse :: "runtime \<Rightarrow> schema \<Rightarrow> jsval \<Rightarrow> err + jsval"
  and parseNested :: "runtime \<Rightarrow> schema \<Rightarrow> jsval \<Rightarrow> err + jsval"
  and parseFields ::
    "runtime \<Rightarrow> schema \<Rightarrow> jsval \<Rightarrow> string list \<Rightarrow> props \<times> err list \<Rightarrow> props \<times> err list"
  where
  "parse rt S v =
     (if children S \<noteq> None then parseNested rt S v
      else (case (if truthy (setting S ''default'') \<and> \<not> truthy v
                  then (case setting S ''default'' of
                          JFun n i \<Rightarrow> rt_call rt i (JObj (settings S)) [v]
                        | d \<Rightarrow> Inr d)
                  else Inr v) of
              Inl e \<Rightarrow> Inl e
            | Inr v' \<Rightarrow> run rt S (type S) v'))"
| "parseNested rt S obj =
     (case structureValidation S obj of
        Inl e \<Rightarrow> Inl e
      | Inr u \<Rightarrow>
          (case ownPaths S of
             Inl e \<Rightarrow> Inl e
           | Inr ps \<Rightarrow> finish (parseFields rt S obj ps ([], []))))"
| "parseFields rt S obj [] acc = acc"
| "parseFields rt S obj (pathName # ps) acc =
     parseFields rt S obj ps
       (case schemaAtPath S pathName of
          None \<Rightarrow>
            collect acc S (Inl (TypeError ''Cannot read property parse of undefined''))
        | Some schema \<Rightarrow>
            collect acc schema
              (case child_input rt obj schema of
                 Inl e \<Rightarrow> Inl e
               | Inr x \<Rightarrow> parse rt schema x))"
  by pat_completeness auto
termination
proof (relation "inv_image (less_than <*lex*> less_than <*lex*> less_than)
    (\<lambda>x. case x of
            Inl (rt, S, v) \<Rightarrow> (size S, 2 :: nat, 0 :: nat)
          | Inr (Inl (rt, S, v)) \<Rightarrow> (size S, 1, 0)
          | Inr (Inr (rt, S, v, ps, acc)) \<Rightarrow> (size S, 0, length ps))")
  fix rt :: runtime and S :: schema and ob :: jsval and pathName :: string
    and c :: schema and x :: jsval and ps :: "string list" and acc :: "props \<times> err list"
  assume c: "schemaAtPath S pathName = Some c"
  obtain cs where cs: "children S = Some cs" and mem: "c \<in> set cs"
    using c by (auto simp: schemaAtPath_def find_Some_iff split: option.splits)
  from mem have "size c < Suc (size_list size cs)"
    by (induction cs) auto
  with cs have "size c < size S" by (cases S) simp
  then show "(Inl (rt, c, x), Inr (Inr (rt, S, ob, pathName # ps, acc)))
       \<in> inv_image (less_than <*lex*> less_than <*lex*> less_than)
    (\<lambda>x. case x of
            Inl (rt, S, v) \<Rightarrow> (size S, 2 :: nat, 0 :: nat)
          | Inr (Inl (rt, S, v)) \<Rightarrow> (size S, 1, 0)
          | Inr (Inr (rt, S, v, ps, acc)) \<Rightarrow> (size S, 0, length ps))"
    by simp
qed auto

declare parse.simps [simp del] parseNested.simps [simp del]



section \<open>The store\<close>

text \<open>
  For what \<^verbatim>\<open>parse\<close> does to the objects it is given, objects get an identity. A value is
  now a primitive or a reference; the store is the list of the objects allocated so far,
  and a reference is an index into it. An object literal, an array literal or
  \<^verbatim>\<open>new Date\<close> appends an object to the store; an assignment to a property replaces the
  object at its index.
\<close>

datatype hval = HUndefined | HNull | HBool bool | HNum jsnum | HStr string | HRef nat

datatype hobj =
    HObject "(string \<times> hval) list"
  | HArray "hval list"
  | HFunction string nat
  | HDate jsnum
  | HRegExp string

type_synonym store = "hobj list"
type_synonym hschema = "hval gschema"
type_synonym herr = "hval gerr"

definition deref :: "store \<Rightarrow> hval \<Rightarrow> hobj option" where
  "deref h v = (case v of HRef a \<Rightarrow> if a < length h then Some (h ! a) else None | _ \<Rightarrow> None)"

definition alloc :: "store \<Rightarrow> hobj \<Rightarrow> nat \<times> store" where
  "alloc h ob = (length h, h @ [ob])"

fun truthy_h :: "hval \<Rightarrow> bool" where
  "truthy_h HUndefined = False"
| "truthy_h HNull = False"
| "truthy_h (HBool b) = b"
| "truthy_h (HNum NaN) = False"
| "truthy_h (HNum (Num r)) = (r \<noteq> 0)"
| "truthy_h (HStr s) = (s \<noteq> [])"
| "truthy_h (HRef a) = True"

definition typeof_h :: "store \<Rightarrow> hval \<Rightarrow> string" where
  "typeof_h h v =
     (case v of
        HUndefined \<Rightarrow> ''undefined''
      | HNull \<Rightarrow> ''object''
      | HBool b \<Rightarrow> ''boolean''
      | HNum n \<Rightarrow> ''number''
      | HStr s \<Rightarrow> ''string''
      | HRef a \<Rightarrow> (case deref h v of Some (HFunction n i) \<Rightarrow> ''function'' | _ \<Rightarrow> ''object''))"

definition own_keys_h :: "store \<Rightarrow> hval \<Rightarrow> string list" where
  "own_keys_h h v =
     (case v of
        HStr s \<Rightarrow> map string_of_nat [0..<length s]
      | HRef a \<Rightarrow> (case deref h v of
                    Some (HObject kvs) \<Rightarrow> map fst kvs
                  | Some (HArray xs) \<Rightarrow> map string_of_nat [0..<length xs]
                  | _ \<Rightarrow> [])
      | _ \<Rightarrow> [])"

definition own_prop_h :: "store \<Rightarrow> hval \<Rightarrow> string \<Rightarrow> hval option" where
  "own_prop_h h v k =
     (case deref h v of
        Some (HObject kvs) \<Rightarrow> map_of kvs k
      | Some (HArray xs) \<Rightarrow>
          if k = ''length'' then Some (HNum (Num (of_nat (length xs))))
          else map_of (zip (map string_of_nat [0..<length xs]) xs) k
      | _ \<Rightarrow> None)"

text \<open>
  The runtime over the store. A call reads the store and returns a value: it neither
  writes nor allocates. Its receiver is a value or, for the call of a default, the
  settings object of a node, which is not in the store.

  Modelled from the spec: \<^verbatim>\<open>obj2dot\<close> of \<^verbatim>\<open>utils/obj-2-dot\<close> is not among the sources. Over
  the store it is the parameter \<open>h_obj2dot\<close>: it flattens the nested mapping it is given
  into dotted-path keys, reading the store.
\<close>

record hruntime =
  h_call :: "nat \<Rightarrow> store \<Rightarrow> hval + hobj \<Rightarrow> hval list \<Rightarrow> herr + hval"
  h_inherited :: "store \<Rightarrow> hval \<Rightarrow> string \<Rightarrow> hval"
  h_registry_inherited :: "string \<Rightarrow> hval"
  h_ToPrimitive :: "store \<Rightarrow> hval \<Rightarrow> herr + hval"
  h_StringToNumber :: "string \<Rightarrow> jsnum"
  h_RegExp_test :: "string \<Rightarrow> store \<Rightarrow> hval \<Rightarrow> herr + bool"
  h_Date_parse :: "store \<Rightarrow> hval \<Rightarrow> herr + jsnum"
  h_obj2dot :: "store \<Rightarrow> hval \<Rightarrow> string list"

definition get_prop_h :: "hruntime \<Rightarrow> store \<Rightarrow> hval \<Rightarrow> string \<Rightarrow> herr + hval" where
  "get_prop_h rt h v k =
     (if v = HNull \<or> v = HUndefined
      then Inl (TypeError (''Cannot read property '' @ k))
      else (case own_prop_h h v k of Some x \<Rightarrow> Inr x | None \<Rightarrow> Inr (h_inherited rt h v k)))"

definition call_method_h ::
  "hruntime \<Rightarrow> store \<Rightarrow> hval \<Rightarrow> string \<Rightarrow> hval list \<Rightarrow> herr + hval" where
  "call_method_h rt h v k args =
     (case get_prop_h rt h v k of
        Inl e \<Rightarrow> Inl e
      | Inr f \<Rightarrow> (case deref h f of
                    Some (HFunction n i) \<Rightarrow> h_call rt i h (Inl v) args
                  | _ \<Rightarrow> Inl (TypeError (k @ '' is not a function''))))"

definition hasOwnProperty_h :: "hruntime \<Rightarrow> store \<Rightarrow> hval \<Rightarrow> string \<Rightarrow> herr + hval" where
  "hasOwnProperty_h rt h v k =
     (if v = HNull \<or> v = HUndefined
      then Inl (TypeError ''Cannot read property hasOwnProperty'')
      else (case own_prop_h h v ''hasOwnProperty'' of
              Some f \<Rightarrow> call_method_h rt h v ''hasOwnProperty'' [HStr k]
            | None \<Rightarrow> Inr (HBool (own_prop_h h v k \<noteq> None))))"

definition js_length_h :: "hruntime \<Rightarrow> store \<Rightarrow> hval \<Rightarrow> herr + hval" where
  "js_length_h rt h v =
     (case v of
        HStr s \<Rightarrow> Inr (HNum (Num (of_nat (length s))))
      | _ \<Rightarrow> get_prop_h rt h v ''length'')"

definition ToPrimitive_h :: "hruntime \<Rightarrow> store \<Rightarrow> hval \<Rightarrow> herr + hval" where
  "ToPrimitive_h rt h v = (case v of HRef a \<Rightarrow> h_ToPrimitive rt h v | _ \<Rightarrow> Inr v)"

fun ToNumber_primitive_h :: "hruntime \<Rightarrow> hval \<Rightarrow> jsnum" where
  "ToNumber_primitive_h rt HUndefined = NaN"
| "ToNumber_primitive_h rt HNull = Num 0"
| "ToNumber_primitive_h rt (HBool b) = (if b then Num 1 else Num 0)"
| "ToNumber_primitive_h rt (HNum n) = n"
| "ToNumber_primitive_h rt (HStr s) = h_StringToNumber rt s"
| "ToNumber_primitive_h rt (HRef a) = NaN"

definition ToNumber_h :: "hruntime \<Rightarrow> store \<Rightarrow> hval \<Rightarrow> herr + jsnum" where
  "ToNumber_h rt h v =
     (case ToPrimitive_h rt h v of Inl e \<Rightarrow> Inl e | Inr p \<Rightarrow> Inr (ToNumber_primitive_h rt p))"

definition prim_lt_h :: "hruntime \<Rightarrow> hval \<Rightarrow> hval \<Rightarrow> bool" where
  "prim_lt_h rt a b =
     (case (a, b) of
        (HStr s, HStr t) \<Rightarrow> str_lt s t
      | _ \<Rightarrow> num_lt (ToNumber_primitive_h rt a) (ToNumber_primitive_h rt b))"

definition js_lt_h :: "hruntime \<Rightarrow> store \<Rightarrow> hval \<Rightarrow> hval \<Rightarrow> herr + bool" where
  "js_lt_h rt h a b =
     (case ToPrimitive_h rt h a of
        Inl e \<Rightarrow> Inl e
      | Inr pa \<Rightarrow> (case ToPrimitive_h rt h b of
                    Inl e \<Rightarrow> Inl e
                  | Inr pb \<Rightarrow> Inr (prim_lt_h rt pa pb)))"

definition js_gt_h :: "hruntime \<Rightarrow> store \<Rightarrow> hval \<Rightarrow> hval \<Rightarrow> herr + bool" where
  "js_gt_h rt h a b =
     (case ToPrimitive_h rt h a of
        Inl e \<Rightarrow> Inl e
      | Inr pa \<Rightarrow> (case ToPrimitive_h rt h b of
                    Inl e \<Rightarrow> Inl e
                  | Inr pb \<Rightarrow> Inr (prim_lt_h rt pb pa)))"

fun isInteger_h :: "hval \<Rightarrow> bool" where
  "isInteger_h (HNum (Num r)) = (r = of_int \<lfloor>r\<rfloor>)"
| "isInteger_h v = False"

definition setting_h :: "hschema \<Rightarrow> string \<Rightarrow> hval" where
  "setting_h S k = (case map_of (settings S) k of Some v \<Rightarrow> v | None \<Rightarrow> HUndefined)"

definition castThrowable_h :: "store \<Rightarrow> hval \<Rightarrow> hval \<Rightarrow> hval \<times> hval" where
  "castThrowable_h h v error =
     (case deref h v of Some (HArray [a, b]) \<Rightarrow> (a, b) | _ \<Rightarrow> (v, error))"

text \<open>The \<^verbatim>\<open>parse\<close> hooks over the store. Only \<^verbatim>\<open>Date\<close> allocates.\<close>

definition String_parse_h :: "hruntime \<Rightarrow> hschema \<Rightarrow> store \<Rightarrow> hval \<Rightarrow> herr + hval" where
  "String_parse_h rt S h v0 =
     (case (if typeof_h h v0 \<noteq> ''string''
            then (case (if typeof_h h v0 = ''object'' then hasOwnProperty_h rt h v0 ''toString''
                        else Inr (HBool False)) of
                    Inl e \<Rightarrow> Inl e
                  | Inr c \<Rightarrow> if \<not> truthy_h c then throwError S (HStr ''Invalid string'') None v0
                            else call_method_h rt h v0 ''toString'' [])
            else Inr v0) of
        Inl e \<Rightarrow> Inl e
      | Inr v \<Rightarrow>
     (case (if truthy_h (setting_h S ''minlength'')
            then (case castThrowable_h h (setting_h S ''minlength'') (HStr ''Invalid minlength'') of
                    (minlength, error) \<Rightarrow>
                      (case js_length_h rt h v of
                         Inl e \<Rightarrow> Inl e
                       | Inr len \<Rightarrow> (case js_lt_h rt h len minlength of
                                      Inl e \<Rightarrow> Inl e
                                    | Inr b \<Rightarrow> if b then throwError S error None v else Inr ())))
            else Inr ()) of
        Inl e \<Rightarrow> Inl e
      | Inr u1 \<Rightarrow>
     (case (if truthy_h (setting_h S ''maxlength'')
            then (case castThrowable_h h (setting_h S ''maxlength'') (HStr ''Invalid maxlength'') of
                    (maxlength, error) \<Rightarrow>
                      (case js_length_h rt h v of
                         Inl e \<Rightarrow> Inl e
                       | Inr len \<Rightarrow> (case js_gt_h rt h len maxlength of
                                      Inl e \<Rightarrow> Inl e
                                    | Inr b \<Rightarrow> if b then throwError S error None v else Inr ())))
            else Inr ()) of
        Inl e \<Rightarrow> Inl e
      | Inr u2 \<Rightarrow>
     (case (if truthy_h (setting_h S ''regex'')
            then (case castThrowable_h h (setting_h S ''regex'') (HStr ''Invalid regex'') of
                    (regex, error) \<Rightarrow>
                      (case (case deref h regex of
                               Some (HRegExp src) \<Rightarrow> h_RegExp_test rt src h v
                             | _ \<Rightarrow> (case call_method_h rt h regex ''test'' [v] of
                                      Inl e \<Rightarrow> Inl e | Inr r \<Rightarrow> Inr (truthy_h r))) of
                         Inl e \<Rightarrow> Inl e
                       | Inr b \<Rightarrow> if \<not> b then throwError S error None v else Inr ()))
            else Inr ()) of
        Inl e \<Rightarrow> Inl e
      | Inr u3 \<Rightarrow> Inr v))))"

definition Number_parse_h :: "hruntime \<Rightarrow> hschema \<Rightarrow> store \<Rightarrow> hval \<Rightarrow> herr + hval" where
  "Number_parse_h rt S h v0 =
     (case ToNumber_h rt h v0 of
        Inl e \<Rightarrow> Inl e
      | Inr v \<Rightarrow> if v = NaN then Inl (Error ''Invalid number'') else Inr (HNum v))"

definition Date_parse_h ::
  "hruntime \<Rightarrow> hschema \<Rightarrow> store \<Rightarrow> hval \<Rightarrow> (herr + hval) \<times> store" where
  "Date_parse_h rt S h v0 =
     (case (if isInteger_h v0 then ToNumber_h rt h v0 else h_Date_parse rt h v0) of
        Inl e \<Rightarrow> (Inl e, h)
      | Inr t \<Rightarrow> (case alloc h (HDate (TimeClip t)) of (a, h') \<Rightarrow> (Inr (HRef a), h')))"

definition Function_parse_h :: "hruntime \<Rightarrow> hschema \<Rightarrow> store \<Rightarrow> hval \<Rightarrow> herr + hval" where
  "Function_parse_h rt S h v =
     (if typeof_h h v \<noteq> ''function'' then Inl (Error ''Invalid function'') else Inr v)"

record htransformer =
  hloaders :: jsval
  hparse_hook :: "hruntime \<Rightarrow> hschema \<Rightarrow> store \<Rightarrow> hval \<Rightarrow> (herr + hval) \<times> store"

definition Transformers_h :: "hruntime \<Rightarrow> string \<Rightarrow> htransformer option" where
  "Transformers_h rt ty =
     (if ty = ''String''
      then Some \<lparr>hloaders = JUndefined,
                 hparse_hook = (\<lambda>rt S h v. (String_parse_h rt S h v, h))\<rparr>
      else if ty = ''Number''
      then Some \<lparr>hloaders = JUndefined,
                 hparse_hook = (\<lambda>rt S h v. (Number_parse_h rt S h v, h))\<rparr>
      else if ty = ''Date'' then Some \<lparr>hloaders = JUndefined, hparse_hook = Date_parse_h\<rparr>
      else if ty = ''Function''
      then Some \<lparr>hloaders = JUndefined,
                 hparse_hook = (\<lambda>rt S h v. (Function_parse_h rt S h v, h))\<rparr>
      else if truthy_h (h_registry_inherited rt ty)
      then Some \<lparr>hloaders = JUndefined,
                 hparse_hook =
                   (\<lambda>rt S h v. (Inl (TypeError ''Cannot read property call of undefined''), h))\<rparr>
      else None)"

function run_h ::
  "hruntime \<Rightarrow> hschema \<Rightarrow> store \<Rightarrow> string \<Rightarrow> hval \<Rightarrow> (herr + hval) \<times> store" where
  "run_h rt S h ty v =
     (case Transformers_h rt ty of
        None \<Rightarrow> (Inl (Error (''Don't know how to resolve '' @ ty)), h)
      | Some transformer \<Rightarrow>
          if v = HUndefined \<and> \<not> truthy_h (setting_h S ''required'') then (Inr HUndefined, h)
          else
            (case (if \<not> truthy_h v \<and> truthy_h (setting_h S ''required'')
                   then (case castThrowable_h h (setting_h S ''required'')
                               (HStr (''Field '' @ fullPath S @ '' is required'')) of
                           (required, error) \<Rightarrow>
                             if truthy_h required then throwError S error None v else Inr ())
                   else Inr ()) of
               Inl e \<Rightarrow> (Inl e, h)
             | Inr u \<Rightarrow>
                 (case (if truthy (hloaders transformer)
                        then fold (\<lambda>loader acc.
                                     case fst acc of
                                       Inl e \<Rightarrow> acc
                                     | Inr x \<Rightarrow> (case guessType loader of
                                                   Inl e \<Rightarrow>
                                                     (Inl (TypeError
                                                        ''Cannot read property type of null''),
                                                      snd acc)
                                                 | Inr ty' \<Rightarrow> run_h rt S (snd acc) ty' x))
                                  (castArray (hloaders transformer)) (Inr v, h)
                        else (Inr v, h)) of
                    (Inl e, h') \<Rightarrow> (Inl e, h')
                  | (Inr v', h') \<Rightarrow> hparse_hook transformer rt S h' v')))"
  by pat_completeness auto
termination
proof (relation "{} :: ((hruntime \<times> hschema \<times> store \<times> string \<times> hval) \<times>
                        (hruntime \<times> hschema \<times> store \<times> string \<times> hval)) set")
  show "wf ({} :: ((hruntime \<times> hschema \<times> store \<times> string \<times> hval) \<times>
                   (hruntime \<times> hschema \<times> store \<times> string \<times> hval)) set)"
    by simp
next
  fix rt :: hruntime and ty :: string and transformer :: htransformer
    and S :: hschema and ty' :: string and x v :: hval and h h' :: store
  assume "Transformers_h rt ty = Some transformer" and "truthy (hloaders transformer)"
  then have False
    by (auto simp: Transformers_h_def split: if_splits)
  then show "((rt, S, h', ty', x), (rt, S, h, ty, v)) \<in> {}" ..
qed

declare run_h.simps [simp del]

text \<open>
  Modelled from the spec: \<^verbatim>\<open>propertiesRestricted\<close> of \<^verbatim>\<open>utils/properties-restricted\<close> is
  not among the sources; it checks that an object's keys are a subset of the allowed
  set. With it the structural pre-pass reads the store only.
\<close>

definition propertiesRestricted_h :: "store \<Rightarrow> hval \<Rightarrow> string list \<Rightarrow> bool" where
  "propertiesRestricted_h h obj properties =
     list_all (\<lambda>k. k \<in> set properties) (own_keys_h h obj)"

definition structureValidation_h ::
  "hruntime \<Rightarrow> hschema \<Rightarrow> store \<Rightarrow> hval \<Rightarrow> herr + hval" where
  "structureValidation_h rt S h obj =
     (if \<not> truthy_h obj then Inr (HBool True)
      else (case ownPaths S of
              Inl e \<Rightarrow> Inl e
            | Inr ps \<Rightarrow>
                if \<not> propertiesRestricted_h h obj ps
                then Inl (new_ValidationError (HStr ''Invalid object schema'')
                            (Some (map (\<lambda>field. Error (''Unknown property '' @ field))
                                       (filter (\<lambda>field. \<not> hasField S field)
                                               (h_obj2dot rt h obj))))
                            obj None)
                else Inr HUndefined))"

text \<open>
  The loop body of \<^verbatim>\<open>_parseNested\<close> over the store. \<^verbatim>\<open>resultingObject\<close> is the reference
  \<open>r\<close>. \<open>Object_assign\<close> writes the properties of the literal \<^verbatim>\<open>{ [schema.name]: val }\<close>,
  which is allocated first, into the object at \<open>r\<close>.
\<close>

definition child_input_h :: "hruntime \<Rightarrow> store \<Rightarrow> hval \<Rightarrow> hschema \<Rightarrow> herr + hval" where
  "child_input_h rt h obj schema =
     (if typeof_h h obj = ''object'' then get_prop_h rt h obj (name schema) else Inr HUndefined)"

definition Object_assign :: "store \<Rightarrow> nat \<Rightarrow> hval \<Rightarrow> store" where
  "Object_assign h r src =
     (case deref h (HRef r) of
        Some (HObject kvs) \<Rightarrow>
          h[r := HObject (fold (\<lambda>k acc. case own_prop_h h src k of
                                          Some v \<Rightarrow> assign acc k v | None \<Rightarrow> acc)
                               (own_keys_h h src) kvs)]
      | _ \<Rightarrow> h)"

definition collect_h ::
  "nat \<Rightarrow> herr list \<times> store \<Rightarrow> hschema \<Rightarrow> herr + hval \<Rightarrow> herr list \<times> store" where
  "collect_h r acc schema res =
     (case res of
        Inr val \<Rightarrow>
          if val \<noteq> HUndefined
          then (case alloc (snd acc) (HObject [(name schema, val)]) of
                  (src, h') \<Rightarrow> (fst acc, Object_assign h' r (HRef src)))
          else acc
      | Inl err \<Rightarrow>
          (case err of
             ValidationError m es w f \<Rightarrow>
               if length es > 0 then (fst acc @ es, snd acc) else (fst acc @ [err], snd acc)
           | _ \<Rightarrow> (fst acc @ [err], snd acc)))"

definition finish_h :: "nat \<Rightarrow> herr list \<times> store \<Rightarrow> (herr + hval) \<times> store" where
  "finish_h r acc =
     (case acc of
        (errs, h) \<Rightarrow>
          if length errs > 0
          then (Inl (new_ValidationError (HStr ''Data is not valid'') (Some errs) HUndefined None), h)
          else (Inr (if length (own_keys_h h (HRef r)) > 0 then HRef r else HUndefined), h))"

function parse_h :: "hruntime \<Rightarrow> hschema \<Rightarrow> store \<Rightarrow> hval \<Rightarrow> (herr + hval) \<times> store"
  and parseNested_h :: "hruntime \<Rightarrow> hschema \<Rightarrow> store \<Rightarrow> hval \<Rightarrow> (herr + hval) \<times> store"
  and parseFields_h ::
    "hruntime \<Rightarrow> hschema \<Rightarrow> hval \<Rightarrow> nat \<Rightarrow> string list \<Rightarrow> herr list \<times> store \<Rightarrow>
       herr list \<times> store"
  where
  "parse_h rt S h v =
     (if children S \<noteq> None then parseNested_h rt S h v
      else (case (if truthy_h (setting_h S ''default'') \<and> \<not> truthy_h v
                  then (case deref h (setting_h S ''default'') of
                          Some (HFunction n i) \<Rightarrow>
                            (h_call rt i h (Inr (HObject (settings S))) [v], h)
                        | _ \<Rightarrow> (Inr (setting_h S ''default''), h))
                  else (Inr v, h)) of
              (Inl e, h') \<Rightarrow> (Inl e, h')
            | (Inr v', h') \<Rightarrow> run_h rt S h' (type S) v'))"
| "parseNested_h rt S h obj =
     (case structureValidation_h rt S h obj of
        Inl e \<Rightarrow> (Inl e, h)
      | Inr u \<Rightarrow>
          (case alloc h (HObject []) of
             (resultingObject, h') \<Rightarrow>
               (case ownPaths S of
                  Inl e \<Rightarrow> (Inl e, h')
                | Inr ps \<Rightarrow>
                    finish_h resultingObject
                      (parseFields_h rt S obj resultingObject ps ([], h')))))"
| "parseFields_h rt S obj r [] acc = acc"
| "parseFields_h rt S obj r (pathName # ps) acc =
     parseFields_h rt S obj r ps
       (case schemaAtPath S pathName of
          None \<Rightarrow>
            collect_h r acc S (Inl (TypeError ''Cannot read property parse of undefined''))
        | Some schema \<Rightarrow>
            (case child_input_h rt (snd acc) obj schema of
               Inl e \<Rightarrow> collect_h r acc schema (Inl e)
             | Inr x \<Rightarrow>
                 (case parse_h rt schema (snd acc) x of
                    (res, h') \<Rightarrow> collect_h r (fst acc, h') schema res)))"
  by pat_completeness auto
termination
proof (relation "inv_image (less_than <*lex*> less_than <*lex*> less_than)
    (\<lambda>x. case x of
            Inl (rt, S, h, v) \<Rightarrow> (size S, 2 :: nat, 0 :: nat)
          | Inr (Inl (rt, S, h, v)) \<Rightarrow> (size S, 1, 0)
          | Inr (Inr (rt, S, v, r, ps, acc)) \<Rightarrow> (size S, 0, length ps))")
  fix rt :: hruntime and S :: hschema and ob :: hval and pathName :: string and r :: nat
    and c :: hschema and x :: hval and ps :: "string list" and acc :: "herr list \<times> store"
  assume c: "schemaAtPath S pathName = Some c"
  obtain cs where cs: "children S = Some cs" and mem: "c \<in> set cs"
    using c by (auto simp: schemaAtPath_def find_Some_iff split: option.splits)
  from mem have "size c < Suc (size_list size cs)"
    by (induction cs) auto
  with cs have "size c < size S" by (cases S) simp
  then show "(Inl (rt, c, snd acc, x), Inr (Inr (rt, S, ob, r, pathName # ps, acc)))
       \<in> inv_image (less_than <*lex*> less_than <*lex*> less_than)
    (\<lambda>x. case x of
            Inl (rt, S, h, v) \<Rightarrow> (size S, 2 :: nat, 0 :: nat)
          | Inr (Inl (rt, S, h, v)) \<Rightarrow> (size S, 1, 0)
          | Inr (Inr (rt, S, v, r, ps, acc)) \<Rightarrow> (size S, 0, length ps))"
    by simp
qed auto

declare parse_h.simps [simp del] parseNested_h.simps [simp del]

text \<open>
  \<open>frame h h'\<close>: every object of the store \<open>h\<close> is in \<open>h'\<close>, at its index and as it was.
\<close>

definition frame :: "store \<Rightarrow> store \<Rightarrow> bool" where
  "frame h h' = (length h \<le> length h' \<and> take (length h) h' = h)"

section \<open>Concrete schemas and inputs\<close>

text \<open>
  A runtime for the concrete inputs below. It reads a string of decimal digits as that
  number, the empty string as zero and any other string as \<^verbatim>\<open>NaN\<close>, which is what
  \<^verbatim>\<open>Number\<close> does on the strings used here; nothing below calls a function value or
  reaches a prototype.
\<close>

fun decimal :: "string \<Rightarrow> nat \<Rightarrow> jsnum" where
  "decimal [] acc = Num (of_nat acc)"
| "decimal (c # s) acc =
     (if 48 \<le> (of_char c :: nat) \<and> (of_char c :: nat) \<le> 57
      then decimal s (10 * acc + (of_char c - 48)) else NaN)"

definition rt0 :: runtime where
  "rt0 = \<lparr>rt_call = (\<lambda>i self args. Inr JUndefined),
          rt_inherited = (\<lambda>v k. JUndefined),
          rt_ToPrimitive = (\<lambda>v. Inr (JStr ''[object Object]'')),
          rt_StringToNumber = (\<lambda>s. decimal s 0),
          rt_RegExp_test = (\<lambda>src v. Inr True),
          rt_Date_parse = (\<lambda>v. Inr NaN)\<rparr>"

text \<open>The constructors \<^verbatim>\<open>String\<close>, \<^verbatim>\<open>Number\<close> and \<^verbatim>\<open>Boolean\<close> as type references.\<close>

definition js_String :: jsval where "js_String = JFun ''String'' 1"
definition js_Number :: jsval where "js_Number = JFun ''Number'' 2"

text \<open>\<^verbatim>\<open>{ name: String }\<close>, and an input with the unknown key \<^verbatim>\<open>address\<close>.\<close>

definition name_def :: jsval where
  "name_def = JObj [(''name'', js_String)]"







definition title_leaf :: schema where
  "title_leaf = Schema ''title'' (Some [[]]) ''String'' [(''required'', JBool True)] None"

definition post_schema :: schema where
  "post_schema = Schema [] None ''Schema'' []
     (Some [title_leaf,
            Schema ''address'' (Some [[]]) ''Schema'' []
              (Some [Schema ''line1'' (Some [[], ''address'']) ''String'' [] None])])"





definition count_def :: jsval where
  "count_def = JObj [(''type'', js_Number), (''default'', JNum (Num 0))]"

definition count_leaf :: schema where
  "count_leaf = Schema [] None ''Number'' [(''default'', JNum (Num 0))] None"

definition state_def :: jsval where
  "state_def = JObj [(''type'', js_String), (''required'', JBool True),
                     (''default'', JStr ''Florida'')]"

definition state_leaf :: schema where
  "state_leaf = Schema [] None ''String''
     [(''required'', JBool True), (''default'', JStr ''Florida'')] None"






text \<open>\<^verbatim>\<open>{ age: { type: Number, required: true, autoCast: false } }\<close>.\<close>

definition age_def :: jsval where
  "age_def = JObj [(''age'', JObj [(''type'', js_Number), (''required'', JBool True),
                                   (''autoCast'', JBool False)])]"

definition age_leaf :: schema where
  "age_leaf = Schema ''age'' (Some [[]]) ''Number''
     [(''required'', JBool True), (''autoCast'', JBool False)] None"

definition age_schema :: schema where
  "age_schema = Schema [] None ''Schema'' [] (Some [age_leaf])"

text \<open>
  \<^verbatim>\<open>{ user: String, age: { type: Number, autoCast: true } }\<close> and the input of the test
  \<^verbatim>\<open>autoCast (default `false`)\<close> in \<^verbatim>\<open>test/utils.test.js\<close>.
\<close>

definition user_def :: jsval where
  "user_def = JObj [(''user'', js_String),
                    (''age'', JObj [(''type'', js_Number), (''autoCast'', JBool True)])]"

definition user_schema :: schema where
  "user_schema = Schema [] None ''Schema'' []
     (Some [Schema ''user'' (Some [[]]) ''String'' [] None,
            Schema ''age'' (Some [[]]) ''Number'' [(''autoCast'', JBool True)] None])"

definition user_input :: jsval where
  "user_input = JObj [(''user'', JStr ''tin''), (''age'', JStr ''thirty six'')]"

text \<open>
  Over the store: a runtime for the input below, the schema \<^verbatim>\<open>{ name: String, email: String }\<close>
  and a store that holds the mapping \<^verbatim>\<open>{ name: 'Martin' }\<close> at index 0.
\<close>

definition hrt0 :: hruntime where
  "hrt0 = \<lparr>h_call = (\<lambda>i h self args. Inr HUndefined),
           h_inherited = (\<lambda>h v k. HUndefined),
           h_registry_inherited = (\<lambda>k. HUndefined),
           h_ToPrimitive = (\<lambda>h v. Inr (HStr ''[object Object]'')),
           h_StringToNumber = (\<lambda>s. decimal s 0),
           h_RegExp_test = (\<lambda>src h v. Inr True),
           h_Date_parse = (\<lambda>h v. Inr NaN),
           h_obj2dot = own_keys_h\<rparr>"

definition contact_hschema :: hschema where
  "contact_hschema = Schema [] None ''Schema'' []
     (Some [Schema ''name'' (Some [[]]) ''String'' [] None,
            Schema ''email'' (Some [[]]) ''String'' [] None])"

definition contact_store :: store where
  "contact_store = [HObject [(''name'', HStr ''Martin'')]]"

section \<open>Properties\<close>

subsection \<open>Unfolding the code\<close>







subsection \<open>Structural errors\<close>




subsection \<open>Failure of a branch\<close>






subsection \<open>Required values and defaults\<close>




text \<open>
  C4 fails on the code at a falsy default. The leaf \<^verbatim>\<open>{ type: Number, default: 0 }\<close> parses
  \<^verbatim>\<open>undefined\<close> to \<^verbatim>\<open>undefined\<close>: \<^verbatim>\<open>parse\<close> tests \<^verbatim>\<open>this.settings.default && !v\<close>, so a
  default that is itself falsy is never substituted.
\<close>

theorem falsy_default_not_substituted:
  "Schema_new count_def [] None = Inr count_leaf \<and>
   parse rt0 count_leaf JUndefined = Inr JUndefined"
  by code_simp

text \<open>
  C6 fails on the code: the constructor checks nothing, and the definition
  \<^verbatim>\<open>{ type: String, required: true, default: 'Florida' }\<close> builds a leaf that keeps both
  settings.
\<close>

theorem required_with_default_constructs:
  "Schema_new state_def [] None = Inr state_leaf"
  by code_simp

subsection \<open>Success of a branch\<close>









subsection \<open>Falsy inputs\<close>

text \<open>
  C10. For every node and every falsy input (\<^verbatim>\<open>undefined\<close>, \<^verbatim>\<open>null\<close>, \<^verbatim>\<open>false\<close>, \<^verbatim>\<open>0\<close>,
  \<^verbatim>\<open>NaN\<close>, the empty string) \<^verbatim>\<open>structureValidation\<close> returns \<^verbatim>\<open>true\<close> without throwing,
  so no \<^verbatim>\<open>Unknown property\<close> error arises, and \<^verbatim>\<open>_parseNested\<close> is the loop over the own
  paths followed by its final statements.
\<close>

theorem falsy_input_skips_structure_check:
  assumes "\<not> truthy v"
  shows "structureValidation S v = Inr (JBool True) \<and>
         parseNested rt S v =
           (case ownPaths S of
              Inl e \<Rightarrow> Inl e
            | Inr ps \<Rightarrow> finish (parseFields rt S v ps ([], [])))"
  using assms by (simp add: structureValidation_def parseNested.simps)

theorem falsy_input_skips_structure_check_witness:
  "\<not> truthy (JNum (Num 0)) \<and>
   structureValidation post_schema (JNum (Num 0)) = Inr (JBool True) \<and>
   parseNested rt0 post_schema (JNum (Num 0)) =
     Inl (ValidationError (JStr ''Data is not valid'')
            [ValidationError (JStr ''Field title is required'') [] JUndefined (Some title_leaf)]
            JUndefined None)"
proof -
  have f: "\<not> truthy (JNum (Num 0))" by simp
  have l: "(case ownPaths post_schema of
              Inl e \<Rightarrow> Inl e
            | Inr ps \<Rightarrow> finish (parseFields rt0 post_schema (JNum (Num 0)) ps ([], []))) =
           Inl (ValidationError (JStr ''Data is not valid'')
            [ValidationError (JStr ''Field title is required'') [] JUndefined (Some title_leaf)]
            JUndefined None)"
    by code_simp
  from falsy_input_skips_structure_check [OF f, of post_schema rt0] l f show ?thesis by simp
qed

subsection \<open>Reparsing and field references\<close>

text \<open>
  C7 fails on the code. The tree \<^verbatim>\<open>{ age: { type: Number, required: true, autoCast: false } }\<close>
  parses \<^verbatim>\<open>{ age: '0' }\<close> to \<^verbatim>\<open>{ age: 0 }\<close>, since \<^verbatim>\<open>Number\<close> casts the string whatever
  \<^verbatim>\<open>autoCast\<close> says; parsing that result again throws, since the required check takes
  the falsy \<^verbatim>\<open>0\<close> for a missing value.
\<close>

theorem reparse_of_cast_zero_fails:
  "Schema_new age_def [] None = Inr age_schema \<and>
   parse rt0 age_schema (JObj [(''age'', JStr ''0'')]) = Inr (JObj [(''age'', JNum (Num 0))]) \<and>
   parse rt0 age_schema (JObj [(''age'', JNum (Num 0))]) =
     Inl (ValidationError (JStr ''Data is not valid'')
            [ValidationError (JStr ''Field age is required'') [] (JNum (Num 0)) (Some age_leaf)]
            JUndefined None)"
  by code_simp

text \<open>
  C8 fails on the code. Against \<^verbatim>\<open>{ user: String, age: { type: Number, autoCast: true } }\<close>
  the input \<^verbatim>\<open>{ user: 'tin', age: 'thirty six' }\<close> throws a composite whose only child is
  the plain \<^verbatim>\<open>Error\<close> that \<^verbatim>\<open>Transformers.Number.parse\<close> throws: it has no field.
\<close>

theorem invalid_number_has_no_field:
  "Schema_new user_def [] None = Inr user_schema \<and>
   parse rt0 user_schema user_input =
     Inl (ValidationError (JStr ''Data is not valid'') [Error ''Invalid number''] JUndefined None)"
  by code_simp

subsection \<open>The input is not written to\<close>

lemma frame_refl: "frame h h"
  by (simp add: frame_def)

lemma frame_trans:
  assumes "frame h0 h1" and "frame h1 h2"
  shows "frame h0 h2"
proof -
  from assms have l: "length h0 \<le> length h1" "length h1 \<le> length h2"
    and t1: "take (length h0) h1 = h0" and t2: "take (length h1) h2 = h1"
    by (simp_all add: frame_def)
  have "take (length h0) h2 = take (length h0) (take (length h1) h2)"
    using l by (simp add: min_def)
  also have "\<dots> = h0" using t1 t2 by simp
  finally show ?thesis using l by (simp add: frame_def)
qed

lemma frame_alloc: "frame h0 h \<Longrightarrow> frame h0 (snd (alloc h ob))"
  by (simp add: frame_def alloc_def)

lemma frame_update: "frame h0 h \<Longrightarrow> length h0 \<le> r \<Longrightarrow> frame h0 (h[r := x])"
  by (simp add: frame_def)

lemma frame_Object_assign:
  "frame h0 h \<Longrightarrow> length h0 \<le> r \<Longrightarrow> frame h0 (Object_assign h r src)"
  by (simp add: Object_assign_def frame_update split: option.splits hobj.splits)

lemma frame_collect_h:
  "frame h0 (snd acc) \<Longrightarrow> length h0 \<le> r \<Longrightarrow> frame h0 (snd (collect_h r acc s res))"
proof (cases res)
  case (Inl e)
  assume "frame h0 (snd acc)"
  with Inl show ?thesis
    by (cases e) (simp_all add: collect_h_def)
next
  case (Inr val)
  assume f: "frame h0 (snd acc)" and r: "length h0 \<le> r"
  have "frame h0 (snd acc @ [HObject [(name s, val)]])"
    using frame_alloc [OF f, of "HObject [(name s, val)]"] by (simp add: alloc_def)
  then have "frame h0 (Object_assign (snd acc @ [HObject [(name s, val)]]) r (HRef (length (snd acc))))"
    using r by (rule frame_Object_assign)
  with Inr f show ?thesis
    by (simp add: collect_h_def alloc_def)
qed

lemma Transformers_h_loaders: "Transformers_h rt ty = Some t \<Longrightarrow> hloaders t = JUndefined"
  by (auto simp: Transformers_h_def split: if_splits)

lemma frame_Date_parse_h: "frame h (snd (Date_parse_h rt S h v))"
  by (simp add: Date_parse_h_def alloc_def frame_def split: sum.splits)

lemma frame_hook:
  "Transformers_h rt ty = Some t \<Longrightarrow> frame h (snd (hparse_hook t rt' S h v))"
  by (auto simp: Transformers_h_def frame_Date_parse_h frame_refl split: if_splits)

lemma run_h_registered:
  assumes "Transformers_h rt ty = Some t"
  shows "run_h rt S h ty v =
     (if v = HUndefined \<and> \<not> truthy_h (setting_h S ''required'') then (Inr HUndefined, h)
      else (case (if \<not> truthy_h v \<and> truthy_h (setting_h S ''required'')
                  then (case castThrowable_h h (setting_h S ''required'')
                               (HStr (''Field '' @ fullPath S @ '' is required'')) of
                          (required, error) \<Rightarrow>
                            if truthy_h required then throwError S error None v else Inr ())
                  else Inr ()) of
              Inl e \<Rightarrow> (Inl e, h)
            | Inr u \<Rightarrow> hparse_hook t rt S h v))"
  using assms Transformers_h_loaders [OF assms]
  by (subst run_h.simps) (simp split: sum.splits)

lemma frame_run_h: "frame h (snd (run_h rt S h ty v))"
proof (cases "Transformers_h rt ty")
  case None
  then show ?thesis by (subst run_h.simps) (simp add: frame_refl)
next
  case (Some t)
  show ?thesis
    unfolding run_h_registered [OF Some]
    using frame_hook [OF Some, of h rt S v]
    by (simp add: frame_refl split: sum.splits)
qed

lemma frame_finish_h: "frame h0 (snd acc) \<Longrightarrow> frame h0 (snd (finish_h r acc))"
  by (auto simp: finish_h_def split: prod.splits)

lemma frame_parse_h_all:
  "frame h (snd (parse_h rt S h v))"
  "frame h (snd (parseNested_h rt S h v))"
  "\<And>h0. frame h0 (snd acc) \<Longrightarrow> length h0 \<le> r \<Longrightarrow>
         frame h0 (snd (parseFields_h rt S obj r ps acc))"
proof (induction rt S h v and rt S h v and rt S obj r ps acc
       rule: parse_h_parseNested_h_parseFields_h.induct)
  case (1 rt S h v)
  show ?case
  proof (cases "children S")
    case None
    then show ?thesis
      by (subst parse_h.simps)
         (auto simp: frame_refl frame_run_h split: sum.splits prod.splits option.splits hobj.splits)
  next
    case (Some cs)
    with "1.IH" show ?thesis by (subst parse_h.simps) simp
  qed
next
  case (2 rt S h obj)
  show ?case
  proof (cases "structureValidation_h rt S h obj")
    case (Inl e)
    then show ?thesis by (subst parseNested_h.simps) (simp add: frame_refl)
  next
    case (Inr u)
    show ?thesis
    proof (cases "ownPaths S :: herr + string list")
      case (Inl e)
      with Inr show ?thesis
        by (subst parseNested_h.simps) (simp add: alloc_def frame_def)
    next
      case ps: (Inr ps)
      have a: "alloc h (HObject []) = (length h, h @ [HObject []])" by (simp add: alloc_def)
      have "frame h (snd (parseFields_h rt S obj (length h) ps ([], h @ [HObject []])))"
        by (rule "2.IH" [OF Inr a [symmetric] ps]) (simp_all add: frame_def)
      then show ?thesis
        using Inr ps a by (subst parseNested_h.simps) (simp add: frame_finish_h)
    qed
  qed
next
  case (3 rt S obj r acc)
  then show ?case by simp
next
  case (4 rt S obj r pathName ps acc)
  let ?acc' = "case schemaAtPath S pathName of
          None \<Rightarrow>
            collect_h r acc S (Inl (TypeError ''Cannot read property parse of undefined''))
        | Some schema \<Rightarrow>
            (case child_input_h rt (snd acc) obj schema of
               Inl e \<Rightarrow> collect_h r acc schema (Inl e)
             | Inr x \<Rightarrow>
                 (case parse_h rt schema (snd acc) x of
                    (res, h') \<Rightarrow> collect_h r (fst acc, h') schema res))"
  have step: "frame h0 (snd ?acc')"
  proof (cases "schemaAtPath S pathName")
    case None
    then show ?thesis using "4.prems" by (simp add: frame_collect_h)
  next
    case (Some schema)
    show ?thesis
    proof (cases "child_input_h rt (snd acc) obj schema")
      case (Inl e)
      with Some show ?thesis using "4.prems" by (simp add: frame_collect_h)
    next
      case (Inr x)
      obtain res h' where p: "parse_h rt schema (snd acc) x = (res, h')"
        by (cases "parse_h rt schema (snd acc) x")
      have "frame (snd acc) (snd (parse_h rt schema (snd acc) x))"
        by (rule "4.IH"(1) [OF Some Inr])
      with p have "frame (snd acc) h'" by simp
      with "4.prems"(1) have "frame h0 h'" by (rule frame_trans)
      then have "frame h0 (snd (collect_h r (fst acc, h') schema res))"
        using "4.prems"(2) by (simp add: frame_collect_h)
      with Some Inr p show ?thesis by simp
    qed
  qed
  have "frame h0 (snd (parseFields_h rt S obj r ps ?acc'))"
    by (rule "4.IH"(2) [OF step "4.prems"(2)])
  then show ?case by simp
qed

lemma deref_frame:
  assumes "frame h h'" and "deref h v = Some ob"
  shows "deref h' v = Some ob"
proof -
  from assms(2) obtain a where v: "v = HRef a" and a: "a < length h" and ob: "ob = h ! a"
    by (cases v) (auto simp: deref_def split: if_splits)
  from assms(1) have l: "length h \<le> length h'" and t: "take (length h) h' = h"
    by (simp_all add: frame_def)
  have "h' ! a = take (length h) h' ! a" using a by simp
  with t have "h' ! a = h ! a" by simp
  with v a l ob show ?thesis by (simp add: deref_def)
qed

lemma deref_Object_assign:
  "deref h (HRef r) = Some (HObject kvs) \<Longrightarrow>
   \<exists>kvs'. deref (Object_assign h r src) (HRef r) = Some (HObject kvs')"
  by (auto simp: Object_assign_def deref_def split: if_splits)

lemma deref_collect_h:
  assumes "deref (snd acc) (HRef r) = Some (HObject kvs)"
  shows "\<exists>kvs'. deref (snd (collect_h r acc s res)) (HRef r) = Some (HObject kvs')"
proof (cases res)
  case (Inl e)
  with assms show ?thesis by (cases e) (simp_all add: collect_h_def)
next
  case (Inr val)
  have "deref (snd acc @ [HObject [(name s, val)]]) (HRef r) = Some (HObject kvs)"
    using assms by (auto simp: deref_def nth_append split: if_splits)
  from deref_Object_assign [OF this] Inr assms show ?thesis
    by (auto simp: collect_h_def alloc_def)
qed

lemma deref_parseFields_h:
  "deref (snd acc) (HRef r) = Some (HObject kvs) \<Longrightarrow>
   \<exists>kvs'. deref (snd (parseFields_h rt S obj r ps acc)) (HRef r) = Some (HObject kvs')"
proof (induction ps arbitrary: acc kvs)
  case Nil
  then show ?case by simp
next
  case (Cons p ps)
  let ?acc' = "case schemaAtPath S p of
          None \<Rightarrow>
            collect_h r acc S (Inl (TypeError ''Cannot read property parse of undefined''))
        | Some schema \<Rightarrow>
            (case child_input_h rt (snd acc) obj schema of
               Inl e \<Rightarrow> collect_h r acc schema (Inl e)
             | Inr x \<Rightarrow>
                 (case parse_h rt schema (snd acc) x of
                    (res, h') \<Rightarrow> collect_h r (fst acc, h') schema res))"
  have "\<exists>kvs'. deref (snd ?acc') (HRef r) = Some (HObject kvs')"
  proof (cases "schemaAtPath S p")
    case None
    with deref_collect_h [OF Cons.prems] show ?thesis by simp
  next
    case (Some schema)
    show ?thesis
    proof (cases "child_input_h rt (snd acc) obj schema")
      case (Inl e)
      with Some deref_collect_h [OF Cons.prems] show ?thesis by simp
    next
      case (Inr x)
      obtain res h' where p: "parse_h rt schema (snd acc) x = (res, h')"
        by (cases "parse_h rt schema (snd acc) x")
      have "frame (snd acc) h'"
        using frame_parse_h_all(1) [of "snd acc" rt schema x] p by simp
      from deref_frame [OF this Cons.prems]
      have "deref (snd (fst acc, h')) (HRef r) = Some (HObject kvs)" by simp
      from deref_collect_h [OF this] Some Inr p show ?thesis by simp
    qed
  qed
  then obtain kvs' where "deref (snd ?acc') (HRef r) = Some (HObject kvs')" ..
  from Cons.IH [OF this] show ?case by simp
qed

text \<open>
  C9. For every branch node, every store and every input that is a mapping of the
  store: whether \<^verbatim>\<open>parse\<close> returns or throws, every object the store held before the
  call, the input with its keys and values among them, is in the store after the call as
  it was. When \<^verbatim>\<open>parse\<close> returns, it returns \<^verbatim>\<open>undefined\<close> or the reference to a mapping
  that the call allocated, at an index the store did not have before, so that the
  result is never the input.
\<close>

theorem parse_does_not_mutate_input:
  assumes branch: "children S = Some cs"
    and input: "deref h v = Some (HObject kvs)"
    and result: "parse_h rt S h v = (res, h')"
  shows "frame h h' \<and> deref h' v = Some (HObject kvs) \<and> res \<noteq> Inr v \<and>
         (isl res \<or> res = Inr HUndefined \<or>
          res = Inr (HRef (length h)) \<and> deref h (HRef (length h)) = None \<and>
          (\<exists>kvs'. deref h' (HRef (length h)) = Some (HObject kvs')))"
proof -
  have fr: "frame h h'"
    using frame_parse_h_all(1) [of h rt S v] result by simp
  have same: "deref h' v = Some (HObject kvs)"
    by (rule deref_frame [OF fr input])
  have old: "deref h (HRef (length h)) = None" by (simp add: deref_def)
  have nested: "parseNested_h rt S h v = (res, h')"
    using result branch by (subst (asm) parse_h.simps) simp
  have shape: "isl res \<or> res = Inr HUndefined \<or>
          res = Inr (HRef (length h)) \<and>
          (\<exists>kvs'. deref h' (HRef (length h)) = Some (HObject kvs'))"
  proof (cases "structureValidation_h rt S h v")
    case (Inl e)
    then have "parseNested_h rt S h v = (Inl e, h)"
      by (subst parseNested_h.simps) simp
    with nested have "res = Inl e" by simp
    then show ?thesis by simp
  next
    case (Inr u)
    let ?acc = "parseFields_h rt S v (length h) (map name cs) ([], h @ [HObject []])"
    have "parseNested_h rt S h v = finish_h (length h) ?acc"
      using Inr branch
      by (subst parseNested_h.simps) (simp add: alloc_def ownPaths_def)
    with nested have fin: "finish_h (length h) ?acc = (res, h')" by simp
    have "deref (snd ([] :: herr list, h @ [HObject []])) (HRef (length h)) = Some (HObject [])"
      by (simp add: deref_def)
    from deref_parseFields_h [OF this]
    obtain kvs' where "deref (snd ?acc) (HRef (length h)) = Some (HObject kvs')" by blast
    with fin show ?thesis
      by (cases ?acc) (auto simp: finish_h_def split: if_splits)
  qed
  have "res \<noteq> Inr v"
    using shape input old by (auto simp: deref_def)
  with fr same shape old show ?thesis by blast
qed

theorem parse_does_not_mutate_input_witness:
  "children contact_hschema =
     Some [Schema ''name'' (Some [[]]) ''String'' [] None,
           Schema ''email'' (Some [[]]) ''String'' [] None] \<and>
   deref contact_store (HRef 0) = Some (HObject [(''name'', HStr ''Martin'')]) \<and>
   parse_h hrt0 contact_hschema contact_store (HRef 0) =
     (Inr (HRef 1),
      [HObject [(''name'', HStr ''Martin'')],
       HObject [(''name'', HStr ''Martin'')],
       HObject [(''name'', HStr ''Martin'')]]) \<and>
   frame contact_store
     [HObject [(''name'', HStr ''Martin'')],
      HObject [(''name'', HStr ''Martin'')],
      HObject [(''name'', HStr ''Martin'')]]"
proof -
  have b: "children contact_hschema =
     Some [Schema ''name'' (Some [[]]) ''String'' [] None,
           Schema ''email'' (Some [[]]) ''String'' [] None]"
    by (simp add: contact_hschema_def)
  have i: "deref contact_store (HRef 0) = Some (HObject [(''name'', HStr ''Martin'')])"
    by (simp add: contact_store_def deref_def)
  have r: "parse_h hrt0 contact_hschema contact_store (HRef 0) =
     (Inr (HRef 1),
      [HObject [(''name'', HStr ''Martin'')],
       HObject [(''name'', HStr ''Martin'')],
       HObject [(''name'', HStr ''Martin'')]])"
    by code_simp
  from parse_does_not_mutate_input [OF b i r] b i r show ?thesis by simp
qed

end
